theory Spec2Isabelle
  imports Complex_Main
begin

section \<open>Function reconstruction from derivatives (app.py)\<close>

text \<open>
  The script \<^verbatim>\<open>app.py\<close> is a straight-line pipeline: parse the derivative texts,
  integrate up to \<open>f\<close>, build and solve the initial-condition equations, substitute
  the solution, convert to numeric callables, sample them on a grid and compute the
  marker lists. Its symbolic and numeric work is done by calls into sympy, numpy,
  matplotlib and the Python builtin \<^verbatim>\<open>float\<close>. Those libraries are not part of the
  script, so the embedding takes them as a record of operations over a type \<open>'e\<close> of
  expressions and a type \<open>'v\<close> of values that a numeric callable returns; every call
  that the script guards with \<^verbatim>\<open>try\<close>, or that the specification names as a failure
  point, returns a sum with the exception text on the left. Python floats are
  modelled as reals: rounding is not represented.
\<close>

subsection \<open>Python strings\<close>

text \<open>\<^verbatim>\<open>str.isspace\<close> on the code points below 256.\<close>

definition isspace :: "char \<Rightarrow> bool" where
  "isspace c = ((of_char c :: nat) \<in> {9, 10, 11, 12, 13, 28, 29, 30, 31, 32, 133, 160})"

definition strip :: "string \<Rightarrow> string" where
  "strip s = rev (dropWhile isspace (rev (dropWhile isspace s)))"

text \<open>\<^verbatim>\<open>s.split(sep)\<close> for a one-character separator: never the empty list.\<close>

fun split :: "char \<Rightarrow> string \<Rightarrow> string list" where
  "split sep [] = [[]]"
| "split sep (c # cs) =
     (if c = sep then [] # split sep cs
      else (case split sep cs of
              [] \<Rightarrow> [[c]]
            | p # ps \<Rightarrow> (c # p) # ps))"

subsection \<open>The library interface\<close>

type_synonym exn = string

text \<open>The three symbols the script creates: \<^verbatim>\<open>x\<close> (line 20), \<^verbatim>\<open>C1\<close>, \<^verbatim>\<open>C2\<close> (line 79).\<close>

datatype sym = Sym_x | Sym_C1 | Sym_C2

text \<open>
  \<^verbatim>\<open>sp.sympify\<close> returns an expression or, for a text such as \<^verbatim>\<open>None\<close>, Python's
  \<^verbatim>\<open>None\<close>. \<open>ax_plot xs v\<close> is \<^verbatim>\<open>Axes.plot(xs, v)\<close>: it raises, or it draws a curve, whose
  ordinates are the result.
\<close>

record ('e, 'v) library =
  sp_sympify :: "string \<Rightarrow> exn + 'e option"
  sp_symbol :: "sym \<Rightarrow> 'e"
  sp_integrate :: "'e \<Rightarrow> sym \<Rightarrow> exn + 'e"
  sp_add :: "'e \<Rightarrow> 'e \<Rightarrow> 'e"
  sp_subs :: "'e \<Rightarrow> sym \<Rightarrow> real \<Rightarrow> 'e"
  sp_sub_float :: "'e \<Rightarrow> real \<Rightarrow> 'e"
  sp_subs_dict :: "'e \<Rightarrow> (sym \<times> 'e) list \<Rightarrow> 'e"
  sp_solve :: "'e list \<Rightarrow> sym list \<Rightarrow> exn + (sym \<times> 'e) list list"
  sp_solve_expr :: "'e \<Rightarrow> sym \<Rightarrow> exn + 'e list"
  sp_is_real :: "'e \<Rightarrow> bool"
  sp_float :: "'e \<Rightarrow> exn + real"
  sp_lambdify :: "sym \<Rightarrow> 'e \<Rightarrow> exn + (real list \<Rightarrow> exn + 'v)"
  ax_plot :: "real list \<Rightarrow> 'v \<Rightarrow> exn + real list"
  sp_diff :: "'e \<Rightarrow> sym \<Rightarrow> 'e"
  sp_free_symbols :: "'e \<Rightarrow> sym list"
  py_float :: "string \<Rightarrow> exn + real"

text \<open>
  \<open>sp_diff\<close> and \<open>sp_free_symbols\<close> are never called by the script; they are in the
  interface because the specification states properties in terms of them.
\<close>

subsection \<open>Inputs, outputs and fatal conditions\<close>

record inputs =
  derivative_str :: string
  second_derivative_str :: string
  ic_fx :: string
  ic_fpx :: string
  critical_points_str :: string
  xmin :: real
  xmax :: real

text \<open>
  \<open>Invalid_*\<close>: the script shows \<^verbatim>\<open>st.error\<close> and calls \<^verbatim>\<open>st.stop()\<close>.
  \<open>Unhandled\<close>: an exception leaves the script outside every \<^verbatim>\<open>try\<close>.
\<close>

datatype fatal =
    Invalid_fprime exn
  | Invalid_fdoubleprime exn
  | Invalid_ic_fx
  | Invalid_ic_fpx
  | Unhandled exn

text \<open>
  \<^verbatim>\<open>inflection_points\<close> holds either the floats of line 138 or, as assigned on line
  137, the list that \<^verbatim>\<open>sp.solve\<close> returned.
\<close>

datatype 'e points = Floats "real list" | Symbolic "'e list"

record 'e outputs =
  f_expr :: 'e
  fprime_expr :: 'e
  fdoubleprime :: "'e option"
  x_vals :: "real list"
  f_vals :: "real list"
  fprime_vals :: "real list"
  fdoubleprime_vals :: "real list option"
  critical_points :: "real list"
  inflection_points :: "'e points"

subsection \<open>Parse symbolic expressions (lines 62-74)\<close>

text \<open>
  \<^verbatim>\<open>fdoubleprime\<close> is \<^verbatim>\<open>None\<close> when the text is blank, and otherwise whatever
  \<^verbatim>\<open>sp.sympify\<close> returned, which may be \<^verbatim>\<open>None\<close> again.
\<close>

definition parse_expressions ::
  "('e, 'v) library \<Rightarrow> string \<Rightarrow> string \<Rightarrow> fatal + ('e option \<times> 'e option)" where
  "parse_expressions L derivative second =
     (case sp_sympify L derivative of
        Inl e \<Rightarrow> Inl (Invalid_fprime e)
      | Inr fprime \<Rightarrow>
          if strip second \<noteq> [] then
            (case sp_sympify L second of
               Inl e \<Rightarrow> Inl (Invalid_fdoubleprime e)
             | Inr fdp \<Rightarrow> Inr (fprime, fdp))
          else Inr (fprime, None))"

subsection \<open>Reconstruct original function (lines 79-86)\<close>

text \<open>
  The branch is taken on \<^verbatim>\<open>fdoubleprime is not None\<close> (line 81). The result is the pair
  \<open>(f_expr, fprime_expr)\<close>. In the second branch \<^verbatim>\<open>fprime\<close> is what the parser
  returned; when that is \<^verbatim>\<open>None\<close>, \<^verbatim>\<open>sp.integrate(None, x)\<close> raises, because the
  constructor of the integral calls a method of its integrand.
\<close>

definition reconstruct ::
  "('e, 'v) library \<Rightarrow> 'e option \<Rightarrow> 'e option \<Rightarrow> fatal + ('e \<times> 'e)" where
  "reconstruct L fprime fdp =
     (case fdp of
        Some g \<Rightarrow>
          (case sp_integrate L g Sym_x of
             Inl e \<Rightarrow> Inl (Unhandled e)
           | Inr G \<Rightarrow>
               let fp = sp_add L G (sp_symbol L Sym_C1) in
               (case sp_integrate L fp Sym_x of
                  Inl e \<Rightarrow> Inl (Unhandled e)
                | Inr F \<Rightarrow> Inr (sp_add L F (sp_symbol L Sym_C2), fp)))
      | None \<Rightarrow>
          (case fprime of
             None \<Rightarrow> Inl (Unhandled ''AttributeError'')
           | Some e \<Rightarrow>
               (case sp_integrate L e Sym_x of
                  Inl e' \<Rightarrow> Inl (Unhandled e')
                | Inr F \<Rightarrow> Inr (sp_add L F (sp_symbol L Sym_C1), e))))"

subsection \<open>Apply initial conditions (lines 91-111)\<close>

text \<open>
  \<^verbatim>\<open>a, b = map(float, s.split(","))\<close>: exactly two parts, both accepted by
  \<^verbatim>\<open>float\<close>. Every other shape raises; the handlers ignore which exception it was.
\<close>

definition parse_pair :: "('e, 'v) library \<Rightarrow> string \<Rightarrow> exn + (real \<times> real)" where
  "parse_pair L s =
     (case split CHR '','' s of
        [u, v] \<Rightarrow>
          (case py_float L u of
             Inl e \<Rightarrow> Inl e
           | Inr a \<Rightarrow>
               (case py_float L v of
                  Inl e \<Rightarrow> Inl e
                | Inr b \<Rightarrow> Inr (a, b)))
      | _ \<Rightarrow> Inl ''ValueError'')"

definition build_equations ::
  "('e, 'v) library \<Rightarrow> 'e \<Rightarrow> 'e \<Rightarrow> string \<Rightarrow> string \<Rightarrow> fatal + 'e list" where
  "build_equations L f fp icf icfp =
     (case parse_pair L icf of
        Inl _ \<Rightarrow> Inl Invalid_ic_fx
      | Inr (a, b) \<Rightarrow>
          let eq1 = sp_sub_float L (sp_subs L f Sym_x a) b in
          if strip icfp \<noteq> [] then
            (case parse_pair L icfp of
               Inl _ \<Rightarrow> Inl Invalid_ic_fpx
             | Inr (c, d) \<Rightarrow> Inr [eq1, sp_sub_float L (sp_subs L fp Sym_x c) d])
          else Inr [eq1])"

text \<open>
  The constants that lines 81-86 put into the expressions: \<open>C1\<close> and \<open>C2\<close> in the
  branch that integrates twice, \<open>C1\<close> alone in the other.
\<close>

definition introduced_constants :: "'e option \<Rightarrow> sym list" where
  "introduced_constants fdp = (case fdp of Some g \<Rightarrow> [Sym_C1, Sym_C2] | None \<Rightarrow> [Sym_C1])"

text \<open>Line 108: the list of unknowns handed to \<^verbatim>\<open>sp.solve\<close>.\<close>

definition solve_unknowns :: "sym list" where
  "solve_unknowns = [Sym_C1, Sym_C2]"

definition apply_constants ::
  "('e, 'v) library \<Rightarrow> 'e \<Rightarrow> 'e \<Rightarrow> 'e list \<Rightarrow> fatal + ('e \<times> 'e)" where
  "apply_constants L f fp equations =
     (case sp_solve L equations solve_unknowns of
        Inl e \<Rightarrow> Inl (Unhandled e)
      | Inr constants \<Rightarrow>
          (case constants of
             [] \<Rightarrow> Inr (f, fp)
           | s # _ \<Rightarrow> Inr (sp_subs_dict L f s, sp_subs_dict L fp s)))"

text \<open>Stages 1 to 3 together: the finalized pair and the parsed second derivative.\<close>

definition symbolic_part ::
  "('e, 'v) library \<Rightarrow> inputs \<Rightarrow> fatal + ('e \<times> 'e \<times> 'e option)" where
  "symbolic_part L inp =
     (case parse_expressions L (derivative_str inp) (second_derivative_str inp) of
        Inl h \<Rightarrow> Inl h
      | Inr (fprime, fdp) \<Rightarrow>
          (case reconstruct L fprime fdp of
             Inl h \<Rightarrow> Inl h
           | Inr (f, fp) \<Rightarrow>
               (case build_equations L f fp (ic_fx inp) (ic_fpx inp) of
                  Inl h \<Rightarrow> Inl h
                | Inr equations \<Rightarrow>
                    (case apply_constants L f fp equations of
                       Inl h \<Rightarrow> Inl h
                     | Inr (f', fp') \<Rightarrow> Inr (f', fp', fdp)))))"

subsection \<open>Numerical lambdas and the sample grid (lines 116-122)\<close>

type_synonym 'v callable = "real list \<Rightarrow> exn + 'v"

definition numerical_lambdas ::
  "('e, 'v) library \<Rightarrow> 'e \<Rightarrow> 'e \<Rightarrow> 'e option \<Rightarrow> fatal + ('v callable \<times> 'v callable \<times> 'v callable option)" where
  "numerical_lambdas L f fp fdp =
     (case sp_lambdify L Sym_x f of
        Inl e \<Rightarrow> Inl (Unhandled e)
      | Inr f_num \<Rightarrow>
          (case sp_lambdify L Sym_x fp of
             Inl e \<Rightarrow> Inl (Unhandled e)
           | Inr fp_num \<Rightarrow>
               (case fdp of
                  None \<Rightarrow> Inr (f_num, fp_num, None)
                | Some g \<Rightarrow>
                    (case sp_lambdify L Sym_x g of
                       Inl e \<Rightarrow> Inl (Unhandled e)
                     | Inr fpp_num \<Rightarrow> Inr (f_num, fp_num, Some fpp_num)))))"

text \<open>
  \<^verbatim>\<open>np.linspace(start, stop, num)\<close> with the default \<^verbatim>\<open>endpoint=True\<close>, as numpy
  documents and computes it: \<open>step = (stop - start) / (num - 1)\<close>, the points
  \<open>start + i * step\<close>, and the last point overwritten by \<open>stop\<close>.
\<close>

definition linspace :: "real \<Rightarrow> real \<Rightarrow> nat \<Rightarrow> real list" where
  "linspace start stop num =
     (if num = 0 then []
      else if num = 1 then [start]
      else map (\<lambda>i. start + real i * ((stop - start) / real (num - 1))) [0..<num - 1] @ [stop])"

definition sample_grid :: "real \<Rightarrow> real \<Rightarrow> real list" where
  "sample_grid lo hi = linspace lo hi 1000"

subsection \<open>Critical and inflection points (lines 127-140)\<close>

fun float_each :: "('e, 'v) library \<Rightarrow> string list \<Rightarrow> exn + real list" where
  "float_each L [] = Inr []"
| "float_each L (v # vs) =
     (case py_float L v of
        Inl e \<Rightarrow> Inl e
      | Inr r \<Rightarrow>
          (case float_each L vs of
             Inl e \<Rightarrow> Inl e
           | Inr rs \<Rightarrow> Inr (r # rs)))"

text \<open>The result is the list and the warnings shown.\<close>

definition parse_critical_points :: "('e, 'v) library \<Rightarrow> string \<Rightarrow> real list \<times> string list" where
  "parse_critical_points L s =
     (if strip s \<noteq> [] then
        (case float_each L (split CHR '','' s) of
           Inl _ \<Rightarrow> ([], [''Could not parse critical points.''])
         | Inr vs \<Rightarrow> (vs, []))
      else ([], []))"

text \<open>Line 138: \<^verbatim>\<open>[float(v) for v in inflection_points if v.is_real]\<close>.\<close>

fun real_floats :: "('e, 'v) library \<Rightarrow> 'e list \<Rightarrow> exn + real list" where
  "real_floats L [] = Inr []"
| "real_floats L (v # vs) =
     (if sp_is_real L v then
        (case sp_float L v of
           Inl e \<Rightarrow> Inl e
         | Inr r \<Rightarrow>
             (case real_floats L vs of
                Inl e \<Rightarrow> Inl e
              | Inr rs \<Rightarrow> Inr (r # rs)))
      else real_floats L vs)"

text \<open>
  Lines 134-140. The variable is assigned twice inside the \<^verbatim>\<open>try\<close>: an exception
  on line 137 leaves the initial \<^verbatim>\<open>[]\<close>, an exception on line 138 leaves what line
  137 stored.
\<close>

definition find_inflection_points :: "('e, 'v) library \<Rightarrow> 'e option \<Rightarrow> 'e points" where
  "find_inflection_points L fdp =
     (case fdp of
        None \<Rightarrow> Floats []
      | Some g \<Rightarrow>
          (case sp_solve_expr L g Sym_x of
             Inl _ \<Rightarrow> Floats []
           | Inr sols \<Rightarrow>
               (case real_floats L sols of
                  Inl _ \<Rightarrow> Symbolic sols
                | Inr rs \<Rightarrow> Floats rs)))"

subsection \<open>Plotting the curves (lines 151, 155, 160) and the whole run\<close>

text \<open>
  \<^verbatim>\<open>axes[i].plot(x_vals, f_num(x_vals))\<close>: the callable is applied to the grid and its
  value is handed to \<^verbatim>\<open>plot\<close>; either may raise, outside every \<^verbatim>\<open>try\<close>.
\<close>

definition plot_curve ::
  "('e, 'v) library \<Rightarrow> 'v callable \<Rightarrow> real list \<Rightarrow> fatal + real list" where
  "plot_curve L f_num xs =
     (case f_num xs of
        Inl e \<Rightarrow> Inl (Unhandled e)
      | Inr v \<Rightarrow>
          (case ax_plot L xs v of
             Inl e \<Rightarrow> Inl (Unhandled e)
           | Inr ys \<Rightarrow> Inr ys))"

definition evaluate ::
  "('e, 'v) library \<Rightarrow> 'v callable \<Rightarrow> 'v callable \<Rightarrow> 'v callable option \<Rightarrow> real list \<Rightarrow>
     fatal + (real list \<times> real list \<times> real list option)" where
  "evaluate L f_num fp_num fpp_num xs =
     (case plot_curve L f_num xs of
        Inl h \<Rightarrow> Inl h
      | Inr ys \<Rightarrow>
          (case plot_curve L fp_num xs of
             Inl h \<Rightarrow> Inl h
           | Inr ys' \<Rightarrow>
               (case fpp_num of
                  None \<Rightarrow> Inr (ys, ys', None)
                | Some h \<Rightarrow>
                    (case plot_curve L h xs of
                       Inl h' \<Rightarrow> Inl h'
                     | Inr ys'' \<Rightarrow> Inr (ys, ys', Some ys'')))))"

text \<open>
  Lines 116-160 as one function of the finalized expressions, the bounds and the
  critical-point text. The result is the warnings shown, and either the fatal
  condition or the outputs. The marker lines (164-171) and the display of the
  formulas (181-184) are not modelled.
\<close>

definition evaluator ::
  "('e, 'v) library \<Rightarrow> 'e \<Rightarrow> 'e \<Rightarrow> 'e option \<Rightarrow> real \<Rightarrow> real \<Rightarrow> string \<Rightarrow>
     string list \<times> (fatal + 'e outputs)" where
  "evaluator L f fp fdp lo hi cp_text =
     (case numerical_lambdas L f fp fdp of
        Inl h \<Rightarrow> ([], Inl h)
      | Inr (f_num, fp_num, fpp_num) \<Rightarrow>
          let xs = sample_grid lo hi;
              (cps, warnings) = parse_critical_points L cp_text;
              ips = find_inflection_points L fdp
          in (warnings,
              (case evaluate L f_num fp_num fpp_num xs of
                 Inl h \<Rightarrow> Inl h
               | Inr (ys, ys', ys'') \<Rightarrow>
                   Inr \<lparr>f_expr = f, fprime_expr = fp, fdoubleprime = fdp, x_vals = xs,
                        f_vals = ys, fprime_vals = ys', fdoubleprime_vals = ys'',
                        critical_points = cps, inflection_points = ips\<rparr>)))"

text \<open>The whole run.\<close>

definition pipeline :: "('e, 'v) library \<Rightarrow> inputs \<Rightarrow> string list \<times> (fatal + 'e outputs)" where
  "pipeline L inp =
     (case symbolic_part L inp of
        Inl h \<Rightarrow> ([], Inl h)
      | Inr (f, fp, fdp) \<Rightarrow>
          evaluator L f fp fdp (xmin inp) (xmax inp) (critical_points_str inp))"

section \<open>An executable interpretation of the library on polynomials\<close>

text \<open>
  To run the pipeline on concrete inputs the interface is interpreted on a fragment:
  polynomials in \<open>x\<close>, lowest degree first, without trailing zero coefficients, whose
  coefficients are affine forms \<open>k + a * C1 + b * C2\<close>, written \<open>(k, a, b)\<close>. On this
  fragment the operations compute what the library computes for such expressions.
  The fragment is smaller than what the library accepts: a text or an expression
  outside it is refused here, also where the library would go on.
\<close>

type_synonym coeff = "real \<times> real \<times> real"
type_synonym poly = "coeff list"

definition czero :: coeff where
  "czero = (0, 0, 0)"

fun cadd :: "coeff \<Rightarrow> coeff \<Rightarrow> coeff" where
  "cadd (k, a, b) (k', a', b') = (k + k', a + a', b + b')"

fun cscale :: "real \<Rightarrow> coeff \<Rightarrow> coeff" where
  "cscale r (k, a, b) = (r * k, r * a, r * b)"

definition norm_poly :: "poly \<Rightarrow> poly" where
  "norm_poly p = rev (dropWhile (\<lambda>c. c = czero) (rev p))"

fun padd_raw :: "poly \<Rightarrow> poly \<Rightarrow> poly" where
  "padd_raw [] q = q"
| "padd_raw p [] = p"
| "padd_raw (c # p) (d # q) = cadd c d # padd_raw p q"

definition padd :: "poly \<Rightarrow> poly \<Rightarrow> poly" where
  "padd p q = norm_poly (padd_raw p q)"

fun pint_from :: "nat \<Rightarrow> poly \<Rightarrow> poly" where
  "pint_from n [] = []"
| "pint_from n (c # p) = cscale (1 / real (Suc n)) c # pint_from (Suc n) p"

fun pdiff_from :: "nat \<Rightarrow> poly \<Rightarrow> poly" where
  "pdiff_from n [] = []"
| "pdiff_from n (c # p) = cscale (real (Suc n)) c # pdiff_from (Suc n) p"

definition pintegrate :: "poly \<Rightarrow> sym \<Rightarrow> exn + poly" where
  "pintegrate p s =
     (if s = Sym_x then Inr (norm_poly (czero # pint_from 0 p))
      else Inl ''NotImplementedError'')"

definition pdiff :: "poly \<Rightarrow> sym \<Rightarrow> poly" where
  "pdiff p s =
     (case s of
        Sym_x \<Rightarrow> norm_poly (pdiff_from 0 (tl p))
      | Sym_C1 \<Rightarrow> norm_poly (map (\<lambda>(k, a, b). (a, 0, 0)) p)
      | Sym_C2 \<Rightarrow> norm_poly (map (\<lambda>(k, a, b). (b, 0, 0)) p))"

definition psymbol :: "sym \<Rightarrow> poly" where
  "psymbol s =
     (case s of
        Sym_x \<Rightarrow> [czero, (1, 0, 0)]
      | Sym_C1 \<Rightarrow> [(0, 1, 0)]
      | Sym_C2 \<Rightarrow> [(0, 0, 1)])"

definition peval :: "poly \<Rightarrow> real \<Rightarrow> coeff" where
  "peval p t = foldr (\<lambda>c acc. cadd c (cscale t acc)) p czero"

definition psubs :: "poly \<Rightarrow> sym \<Rightarrow> real \<Rightarrow> poly" where
  "psubs p s t =
     (case s of
        Sym_x \<Rightarrow> norm_poly [peval p t]
      | Sym_C1 \<Rightarrow> norm_poly (map (\<lambda>(k, a, b). (k + a * t, 0, b)) p)
      | Sym_C2 \<Rightarrow> norm_poly (map (\<lambda>(k, a, b). (k + b * t, a, 0)) p))"

definition psub_float :: "poly \<Rightarrow> real \<Rightarrow> poly" where
  "psub_float p r = padd p [(- r, 0, 0)]"

text \<open>The coefficient of a constant polynomial.\<close>

definition cval :: "poly \<Rightarrow> coeff" where
  "cval p = (case p of [] \<Rightarrow> czero | c # _ \<Rightarrow> c)"

definition psubs_dict :: "poly \<Rightarrow> (sym \<times> poly) list \<Rightarrow> poly" where
  "psubs_dict p sol =
     (let v1 = (case map_of sol Sym_C1 of None \<Rightarrow> (0, 1, 0) | Some v \<Rightarrow> cval v);
          v2 = (case map_of sol Sym_C2 of None \<Rightarrow> (0, 0, 1) | Some v \<Rightarrow> cval v)
      in norm_poly (map (\<lambda>(k, a, b). cadd (k, 0, 0) (cadd (cscale a v1) (cscale b v2))) p))"

text \<open>
  Linear elimination for the unknowns \<open>C1\<close>, then \<open>C2\<close>, among those asked for. An
  equation left over that is a nonzero number means no solution; one that still has a
  symbol not asked for is left aside.
\<close>

definition numeric :: "coeff \<Rightarrow> bool" where
  "numeric c = (case c of (k, a, b) \<Rightarrow> a = 0 \<and> b = 0)"

definition coef_of :: "sym \<Rightarrow> coeff \<Rightarrow> real" where
  "coef_of s c = (case c of (k, a, b) \<Rightarrow> (case s of Sym_x \<Rightarrow> 0 | Sym_C1 \<Rightarrow> a | Sym_C2 \<Rightarrow> b))"

definition drop_sym :: "sym \<Rightarrow> coeff \<Rightarrow> coeff" where
  "drop_sym s c =
     (case c of (k, a, b) \<Rightarrow>
        (case s of Sym_x \<Rightarrow> (k, a, b) | Sym_C1 \<Rightarrow> (k, 0, b) | Sym_C2 \<Rightarrow> (k, a, 0)))"

definition solved_value :: "sym \<Rightarrow> coeff \<Rightarrow> coeff" where
  "solved_value s piv = cscale (- 1 / coef_of s piv) (drop_sym s piv)"

definition eliminate :: "sym \<Rightarrow> coeff \<Rightarrow> coeff \<Rightarrow> coeff" where
  "eliminate s piv e = cadd (drop_sym s e) (cscale (coef_of s e) (solved_value s piv))"

definition pivot_step :: "sym \<Rightarrow> sym list \<Rightarrow> coeff list \<Rightarrow> coeff option \<times> coeff list" where
  "pivot_step s unknowns es =
     (if s \<in> set unknowns then
        (case find (\<lambda>e. coef_of s e \<noteq> 0) es of
           None \<Rightarrow> (None, es)
         | Some piv \<Rightarrow> (Some piv, map (eliminate s piv) (remove1 piv es)))
      else (None, es))"

definition psolve :: "poly list \<Rightarrow> sym list \<Rightarrow> exn + (sym \<times> poly) list list" where
  "psolve eqs unknowns =
     (if list_ex (\<lambda>p. length p > 1) eqs then Inl ''NotImplementedError''
      else
        let (s1, es1) = pivot_step Sym_C1 unknowns (map cval eqs);
            (s2, es2) = pivot_step Sym_C2 unknowns es1
        in if list_ex (\<lambda>e. numeric e \<and> e \<noteq> czero) es2 then Inr []
           else
             let sol2 = (case s2 of None \<Rightarrow> [] | Some q \<Rightarrow> [(Sym_C2, solved_value Sym_C2 q)]);
                 sol1 = (case s1 of
                           None \<Rightarrow> []
                         | Some p \<Rightarrow>
                             [(Sym_C1,
                               (case s2 of
                                  None \<Rightarrow> solved_value Sym_C1 p
                                | Some q \<Rightarrow> eliminate Sym_C2 q (solved_value Sym_C1 p)))])
             in Inr [map (\<lambda>(s, c). (s, norm_poly [c])) (sol1 @ sol2)])"

text \<open>Roots in \<open>x\<close> of a polynomial of degree at most one with a numeric slope.\<close>

definition psolve_expr :: "poly \<Rightarrow> sym \<Rightarrow> exn + poly list" where
  "psolve_expr p s =
     (if s \<noteq> Sym_x then Inl ''NotImplementedError''
      else
        (case p of
           [] \<Rightarrow> Inr []
         | [c] \<Rightarrow> Inr []
         | [c0, c1] \<Rightarrow>
             if numeric c1 then Inr [norm_poly [cscale (- 1 / fst c1) c0]]
             else Inl ''NotImplementedError''
         | _ \<Rightarrow> Inl ''NotImplementedError''))"

definition pis_real :: "poly \<Rightarrow> bool" where
  "pis_real p = (length p \<le> 1 \<and> numeric (cval p))"

definition pfloat :: "poly \<Rightarrow> exn + real" where
  "pfloat p =
     (if length p \<le> 1 \<and> numeric (cval p) then Inr (fst (cval p))
      else Inl ''TypeError: Cannot convert expression to float'')"

definition pfree_symbols :: "poly \<Rightarrow> sym list" where
  "pfree_symbols p =
     (if length p > 1 then [Sym_x] else []) @
     (if list_ex (\<lambda>c. coef_of Sym_C1 c \<noteq> 0) p then [Sym_C1] else []) @
     (if list_ex (\<lambda>c. coef_of Sym_C2 c \<noteq> 0) p then [Sym_C2] else [])"

text \<open>
  What a callable made by \<^verbatim>\<open>lambdify\<close> returns on an array: an array of floats; for an
  expression with a symbol other than its argument an array of objects, since the
  generated function knows such a symbol as itself; for a constant expression that
  constant, not an array.
\<close>

datatype npvalue = Float_array "real list" | Object_array | Scalar coeff

text \<open>\<^verbatim>\<open>lambdify\<close> generates the function without looking at the free symbols.\<close>

definition plambdify :: "sym \<Rightarrow> poly \<Rightarrow> exn + (real list \<Rightarrow> exn + npvalue)" where
  "plambdify s p =
     (if s = Sym_x then
        Inr (\<lambda>xs. Inr (if length p \<le> 1 then Scalar (cval p)
                       else if list_all numeric p then Float_array (map (\<lambda>t. fst (peval p t)) xs)
                       else Object_array))
      else Inl ''NotImplementedError'')"

text \<open>
  \<^verbatim>\<open>plot\<close> wants as many ordinates as abscissas, and floats: a scalar against a grid of
  another length is a \<^verbatim>\<open>ValueError\<close>, objects that are not numbers a \<^verbatim>\<open>TypeError\<close>.
\<close>

definition pplot :: "real list \<Rightarrow> npvalue \<Rightarrow> exn + real list" where
  "pplot xs v =
     (case v of
        Float_array ys \<Rightarrow> if length ys = length xs then Inr ys else Inl ''ValueError''
      | Object_array \<Rightarrow> Inl ''TypeError''
      | Scalar c \<Rightarrow>
          if length xs \<noteq> 1 then Inl ''ValueError''
          else if numeric c then Inr [fst c]
          else Inl ''TypeError'')"

subsection \<open>Text: decimal numbers and sums of products\<close>

definition isdigit :: "char \<Rightarrow> bool" where
  "isdigit c = (c \<in> set ''0123456789'')"

definition digits_value :: "string \<Rightarrow> nat" where
  "digits_value s = foldl (\<lambda>n c. 10 * n + (of_char c - 48)) 0 s"

definition unsigned_decimal :: "string \<Rightarrow> exn + real" where
  "unsigned_decimal s =
     (case split CHR ''.'' s of
        [i] \<Rightarrow>
          if i \<noteq> [] \<and> list_all isdigit i then Inr (real (digits_value i))
          else Inl ''ValueError''
      | [i, f] \<Rightarrow>
          if list_all isdigit i \<and> list_all isdigit f \<and> \<not> (i = [] \<and> f = []) then
            Inr (real (digits_value i) + real (digits_value f) / 10 ^ length f)
          else Inl ''ValueError''
      | _ \<Rightarrow> Inl ''ValueError'')"

definition decimal_float :: "string \<Rightarrow> exn + real" where
  "decimal_float s =
     (case strip s of
        [] \<Rightarrow> Inl ''ValueError''
      | c # r \<Rightarrow>
          if c = CHR ''-'' then map_sum id uminus (unsigned_decimal r)
          else if c = CHR ''+'' then unsigned_decimal r
          else unsigned_decimal (c # r))"

fun radd :: "real list \<Rightarrow> real list \<Rightarrow> real list" where
  "radd [] q = q"
| "radd p [] = p"
| "radd (c # p) (d # q) = (c + d) # radd p q"

fun rmul :: "real list \<Rightarrow> real list \<Rightarrow> real list" where
  "rmul [] q = []"
| "rmul (c # p) q = radd (map ((*) c) q) (0 # rmul p q)"

text \<open>
  An atom is \<^verbatim>\<open>x\<close>, one of the symbols \<^verbatim>\<open>C1\<close> and \<^verbatim>\<open>C2\<close>, or a decimal integer without
  a leading zero. A product has at most one of the two symbols.
\<close>

definition parse_atom :: "string \<Rightarrow> (real list \<times> sym option) option" where
  "parse_atom s =
     (if s = ''x'' then Some ([0, 1], None)
      else if s = ''C1'' then Some ([1], Some Sym_C1)
      else if s = ''C2'' then Some ([1], Some Sym_C2)
      else if s \<noteq> [] \<and> list_all isdigit s \<and> (length s = 1 \<or> hd s \<noteq> CHR ''0'') then
        Some ([real (digits_value s)], None)
      else None)"

fun parse_product :: "string list \<Rightarrow> (real list \<times> sym option) option" where
  "parse_product [] = Some ([1], None)"
| "parse_product (s # ss) =
     (case parse_atom s of
        None \<Rightarrow> None
      | Some (p, c) \<Rightarrow>
          (case parse_product ss of
             None \<Rightarrow> None
           | Some (q, d) \<Rightarrow>
               (case c of
                  None \<Rightarrow> Some (rmul p q, d)
                | Some a \<Rightarrow> (case d of None \<Rightarrow> Some (rmul p q, Some a) | Some b \<Rightarrow> None))))"

definition with_symbol :: "sym option \<Rightarrow> real \<Rightarrow> coeff" where
  "with_symbol c k =
     (case c of
        None \<Rightarrow> (k, 0, 0)
      | Some s \<Rightarrow> (case s of Sym_x \<Rightarrow> (k, 0, 0) | Sym_C1 \<Rightarrow> (0, k, 0) | Sym_C2 \<Rightarrow> (0, 0, k)))"

fun parse_sum :: "string list \<Rightarrow> poly option" where
  "parse_sum [] = Some []"
| "parse_sum (s # ss) =
     (case parse_product (split CHR ''*'' s) of
        None \<Rightarrow> None
      | Some (p, c) \<Rightarrow> map_option (padd (map (with_symbol c) p)) (parse_sum ss))"

definition psympify :: "string \<Rightarrow> exn + poly option" where
  "psympify s =
     (if strip s = ''None'' then Inr None
      else
        (case parse_sum (split CHR ''+'' (strip s)) of
           None \<Rightarrow> Inl ''SympifyError''
         | Some p \<Rightarrow> Inr (Some p)))"

definition poly_library :: "(poly, npvalue) library" where
  "poly_library =
     \<lparr>sp_sympify = psympify, sp_symbol = psymbol, sp_integrate = pintegrate,
      sp_add = padd, sp_subs = psubs, sp_sub_float = psub_float,
      sp_subs_dict = psubs_dict, sp_solve = psolve, sp_solve_expr = psolve_expr,
      sp_is_real = pis_real, sp_float = pfloat, sp_lambdify = plambdify,
      ax_plot = pplot, sp_diff = pdiff, sp_free_symbols = pfree_symbols,
      py_float = decimal_float\<rparr>"

text \<open>
  The same interpretation with every symbol declared real, as a symbol written
  \<^verbatim>\<open>Symbol('a', real=True)\<close> in the input text is.
\<close>

definition real_symbols_library :: "(poly, npvalue) library" where
  "real_symbols_library = poly_library\<lparr>sp_is_real := \<lambda>v. True\<rparr>"

section \<open>Polynomials that keep the form they were entered in\<close>

text \<open>
  The library does not expand what it parses: the text \<^verbatim>\<open>(x+1)**2\<close> stays a square.
  Its integration and differentiation of a polynomial return expanded polynomials.
  This second interpretation has an expression for the square of a sum with numeric
  coefficients; parsing is the only operation that produces one, and every other
  operation works on the expansion.
\<close>

datatype fexpr = Expanded poly | Squared "real list"

definition expand :: "fexpr \<Rightarrow> poly" where
  "expand e = (case e of Expanded p \<Rightarrow> p | Squared q \<Rightarrow> norm_poly (map (\<lambda>k. (k, 0, 0)) (rmul q q)))"

text \<open>\<^verbatim>\<open>(s)**2\<close>, where \<open>s\<close> is a sum of at least two terms; any other text as before.\<close>

definition fsympify :: "string \<Rightarrow> exn + fexpr option" where
  "fsympify s =
     (let t = strip s in
      if 5 \<le> length t \<and> hd t = CHR ''('' \<and> drop (length t - 4) t = '')**2'' then
        (case psympify (take (length t - 5) (tl t)) of
           Inl e \<Rightarrow> Inl e
         | Inr None \<Rightarrow> Inl ''TypeError''
         | Inr (Some p) \<Rightarrow>
             if list_all numeric p \<and> 2 \<le> length (filter (\<lambda>c. c \<noteq> czero) p) then
               Inr (Some (Squared (map fst p)))
             else Inl ''SympifyError'')
      else map_sum id (map_option Expanded) (psympify t))"

definition factored_library :: "(fexpr, npvalue) library" where
  "factored_library =
     \<lparr>sp_sympify = fsympify,
      sp_symbol = (\<lambda>s. Expanded (psymbol s)),
      sp_integrate = (\<lambda>e s. map_sum id Expanded (pintegrate (expand e) s)),
      sp_add = (\<lambda>a b. Expanded (padd (expand a) (expand b))),
      sp_subs = (\<lambda>e s t. Expanded (psubs (expand e) s t)),
      sp_sub_float = (\<lambda>e r. Expanded (psub_float (expand e) r)),
      sp_subs_dict = (\<lambda>e sol. Expanded (psubs_dict (expand e) (map (\<lambda>(s, v). (s, expand v)) sol))),
      sp_solve = (\<lambda>eqs us. map_sum id (map (map (\<lambda>(s, v). (s, Expanded v))))
                    (psolve (map expand eqs) us)),
      sp_solve_expr = (\<lambda>e s. map_sum id (map Expanded) (psolve_expr (expand e) s)),
      sp_is_real = (\<lambda>e. pis_real (expand e)),
      sp_float = (\<lambda>e. pfloat (expand e)),
      sp_lambdify = (\<lambda>s e. plambdify s (expand e)),
      ax_plot = pplot,
      sp_diff = (\<lambda>e s. Expanded (pdiff (expand e) s)),
      sp_free_symbols = (\<lambda>e. pfree_symbols (expand e)),
      py_float = decimal_float\<rparr>"

section \<open>Evaluating the interpretation\<close>

lemmas text_defs = strip_def isspace_def isdigit_def digits_value_def unsigned_decimal_def
  decimal_float_def parse_atom_def with_symbol_def psympify_def

lemmas poly_defs = czero_def norm_poly_def padd_def pintegrate_def pdiff_def psymbol_def
  peval_def psubs_def psub_float_def cval_def psubs_dict_def coef_of_def drop_sym_def
  solved_value_def eliminate_def pivot_step_def psolve_def numeric_def psolve_expr_def
  pis_real_def pfloat_def pfree_symbols_def plambdify_def pplot_def

lemma poly_library_sel [simp]:
  "sp_sympify poly_library = psympify" "sp_symbol poly_library = psymbol"
  "sp_integrate poly_library = pintegrate" "sp_add poly_library = padd"
  "sp_subs poly_library = psubs" "sp_sub_float poly_library = psub_float"
  "sp_subs_dict poly_library = psubs_dict" "sp_solve poly_library = psolve"
  "sp_solve_expr poly_library = psolve_expr" "sp_is_real poly_library = pis_real"
  "sp_float poly_library = pfloat" "sp_lambdify poly_library = plambdify"
  "sp_diff poly_library = pdiff" "sp_free_symbols poly_library = pfree_symbols"
  "py_float poly_library = decimal_float" "ax_plot poly_library = pplot"
  by (simp_all add: poly_library_def)

lemma sympify_2x: "psympify ''2*x'' = Inr (Some [czero, (2, 0, 0)])"
  by (simp add: text_defs poly_defs)

lemma sympify_x: "psympify ''x'' = Inr (Some [czero, (1, 0, 0)])"
  by (simp add: text_defs poly_defs)

lemma sympify_0: "psympify ''0'' = Inr (Some [])"
  by (simp add: text_defs poly_defs)

lemma sympify_None: "psympify ''None'' = Inr None"
  by (simp add: text_defs)

lemma sympify_C2x: "psympify ''C2*x'' = Inr (Some [czero, (0, 0, 1)])"
  by (simp add: text_defs poly_defs)

lemma strip_None: "strip ''None'' \<noteq> []"
  by (simp add: text_defs)

lemma strip_0: "strip ''0'' = ''0''"
  by (simp add: text_defs)

lemma strip_empty: "strip [] = []"
  by (simp add: text_defs)

lemma parse_2x:
  "parse_expressions poly_library ''2*x'' [] = Inr (Some [czero, (2, 0, 0)], None)"
  by (simp add: parse_expressions_def sympify_2x strip_empty)

lemma parse_with_zero:
  "psympify d = Inr v \<Longrightarrow> parse_expressions poly_library d ''0'' = Inr (v, Some [])"
  by (simp add: parse_expressions_def sympify_0 strip_0)

lemma integrate_2x: "pintegrate [czero, (2, 0, 0)] Sym_x = Inr [czero, czero, (1, 0, 0)]"
  by (simp add: poly_defs)

lemma add_C1_x2: "padd [czero, czero, (1, 0, 0)] (psymbol Sym_C1) = [(0, 1, 0), czero, (1, 0, 0)]"
  by (simp add: poly_defs)

lemma reconstruct_2x:
  "reconstruct poly_library (Some [czero, (2, 0, 0)]) None
     = Inr ([(0, 1, 0), czero, (1, 0, 0)], [czero, (2, 0, 0)])"
  by (simp add: reconstruct_def integrate_2x add_C1_x2)

lemma reconstruct_zero:
  "reconstruct poly_library v (Some []) = Inr ([(0, 0, 1), (0, 1, 0)], [(0, 1, 0)])"
  by (simp add: reconstruct_def Let_def poly_defs)

lemma float_0: "decimal_float ''0'' = Inr 0"
  by (simp add: text_defs)

lemma float_1: "decimal_float ''1'' = Inr 1"
  by (simp add: text_defs)

lemma float_2: "decimal_float ''2'' = Inr 2"
  by (simp add: text_defs)

lemma float_5: "decimal_float ''5'' = Inr 5"
  by (simp add: text_defs)

lemma float_abc: "decimal_float ''abc'' = Inl ''ValueError''"
  by (simp add: text_defs)

lemma pair_0_1: "parse_pair poly_library ''0,1'' = Inr (0, 1)"
  by (simp add: parse_pair_def float_0 float_1)

lemma pair_0_2: "parse_pair poly_library ''0,2'' = Inr (0, 2)"
  by (simp add: parse_pair_def float_0 float_2)

lemma pair_0_0: "parse_pair poly_library ''0,0'' = Inr (0, 0)"
  by (simp add: parse_pair_def float_0)

lemma pair_1_5: "parse_pair poly_library ''1,5'' = Inr (1, 5)"
  by (simp add: parse_pair_def float_1 float_5)

lemma strip_pair: "strip ''0,2'' \<noteq> []" "strip ''1,5'' \<noteq> []" "strip ''abc'' \<noteq> []"
  by (simp_all add: text_defs)

text \<open>\<open>f'' = 0\<close>, \<open>f(0) = 1\<close>, \<open>f'(0) = 2\<close>: the equations \<open>C2 - 1\<close> and \<open>C1 - 2\<close>.\<close>

lemma equations_zero_both:
  "build_equations poly_library [(0, 0, 1), (0, 1, 0)] [(0, 1, 0)] ''0,1'' ''0,2''
     = Inr [[(- 1, 0, 1)], [(- 2, 1, 0)]]"
  by (simp add: build_equations_def pair_0_1 pair_0_2 strip_pair poly_defs)

lemma solve_zero_both:
  "psolve [[(- 1, 0, 1)], [(- 2, 1, 0)]] solve_unknowns
     = Inr [[(Sym_C1, [(2, 0, 0)]), (Sym_C2, [(1, 0, 0)])]]"
  by (simp add: solve_unknowns_def poly_defs)

lemma subs_zero_both:
  "psubs_dict [(0, 0, 1), (0, 1, 0)] [(Sym_C1, [(2, 0, 0)]), (Sym_C2, [(1, 0, 0)])]
     = [(1, 0, 0), (2, 0, 0)]"
  "psubs_dict [(0, 1, 0)] [(Sym_C1, [(2, 0, 0)]), (Sym_C2, [(1, 0, 0)])] = [(2, 0, 0)]"
  by (simp_all add: poly_defs)

text \<open>\<open>f'' = 0\<close>, \<open>f(0) = 1\<close> alone: \<open>C2\<close> is found, \<open>C1\<close> stays.\<close>

lemma equations_zero_one:
  "build_equations poly_library [(0, 0, 1), (0, 1, 0)] [(0, 1, 0)] ''0,1'' []
     = Inr [[(- 1, 0, 1)]]"
  by (simp add: build_equations_def pair_0_1 strip_empty poly_defs)

lemma solve_zero_one:
  "psolve [[(- 1, 0, 1)]] solve_unknowns = Inr [[(Sym_C2, [(1, 0, 0)])]]"
  by (simp add: solve_unknowns_def poly_defs)

lemma subs_zero_one:
  "psubs_dict [(0, 0, 1), (0, 1, 0)] [(Sym_C2, [(1, 0, 0)])] = [(1, 0, 0), (0, 1, 0)]"
  "psubs_dict [(0, 1, 0)] [(Sym_C2, [(1, 0, 0)])] = [(0, 1, 0)]"
  by (simp_all add: poly_defs)

text \<open>\<open>f' = 2x\<close>, \<open>f(0) = 0\<close>, \<open>f'(1) = 5\<close>: the second equation is \<open>2 - 5\<close>, no solution.\<close>

lemma equations_2x_clash:
  "build_equations poly_library [(0, 1, 0), czero, (1, 0, 0)] [czero, (2, 0, 0)] ''0,0'' ''1,5''
     = Inr [[(0, 1, 0)], [(- 3, 0, 0)]]"
  by (simp add: build_equations_def pair_0_0 pair_1_5 strip_pair poly_defs)

lemma solve_2x_clash: "psolve [[(0, 1, 0)], [(- 3, 0, 0)]] solve_unknowns = Inr []"
  by (simp add: solve_unknowns_def poly_defs)

lemma float_12: "decimal_float ''1'' = Inr 1" "decimal_float ''2'' = Inr 2"
  by (simp_all add: text_defs)

lemma pair_1_2: "parse_pair poly_library ''1,2'' = Inr (1, 2)"
  by (simp add: parse_pair_def float_12)

lemma strip_1_2: "strip ''1,2'' \<noteq> []"
  by (simp add: text_defs)

text \<open>\<open>f' = C2 * x\<close>, \<open>f(0) = 0\<close>, \<open>f'(1) = 2\<close>: the equations \<open>C1\<close> and \<open>C2 - 2\<close>.\<close>

lemma reconstruct_C2x:
  "reconstruct poly_library (Some [czero, (0, 0, 1)]) None
     = Inr ([(0, 1, 0), czero, (0, 0, 1 / 2)], [czero, (0, 0, 1)])"
  by (simp add: reconstruct_def poly_defs)

lemma equations_C2x:
  "build_equations poly_library [(0, 1, 0), czero, (0, 0, 1 / 2)] [czero, (0, 0, 1)] ''0,0'' ''1,2''
     = Inr [[(0, 1, 0)], [(- 2, 0, 1)]]"
  by (simp add: build_equations_def pair_0_0 pair_1_2 strip_1_2 poly_defs)

lemma solve_C2x_both:
  "psolve [[(0, 1, 0)], [(- 2, 0, 1)]] solve_unknowns
     = Inr [[(Sym_C1, []), (Sym_C2, [(2, 0, 0)])]]"
  by (simp add: solve_unknowns_def poly_defs)

lemma solve_C2x_one:
  "psolve [[(0, 1, 0)], [(- 2, 0, 1)]] [Sym_C1] = Inr [[(Sym_C1, [])]]"
  by (simp add: poly_defs)

lemma subs_C2x_both:
  "psubs_dict [(0, 1, 0), czero, (0, 0, 1 / 2)] [(Sym_C1, []), (Sym_C2, [(2, 0, 0)])]
     = [czero, czero, (1, 0, 0)]"
  "psubs_dict [czero, (0, 0, 1)] [(Sym_C1, []), (Sym_C2, [(2, 0, 0)])] = [czero, (2, 0, 0)]"
  by (simp_all add: Let_def poly_defs)

lemma subs_C2x_one:
  "psubs_dict [(0, 1, 0), czero, (0, 0, 1 / 2)] [(Sym_C1, [])] = [czero, czero, (0, 0, 1 / 2)]"
  by (simp add: Let_def poly_defs)

text \<open>\<open>f' = 2x\<close> or \<open>f' = x\<close>, no second derivative, \<open>f(0) = 0\<close>: \<open>C1 = 0\<close>.\<close>

lemma reconstruct_x:
  "reconstruct poly_library (Some [czero, (1, 0, 0)]) None
     = Inr ([(0, 1, 0), czero, (1 / 2, 0, 0)], [czero, (1, 0, 0)])"
  by (simp add: reconstruct_def poly_defs)

lemma equations_origin:
  "build_equations poly_library [(0, 1, 0), czero, c] fp ''0,0'' [] = Inr [[(0, 1, 0)]]"
  by (cases c) (simp add: build_equations_def pair_0_0 strip_empty poly_defs)

lemma solve_origin: "psolve [[(0, 1, 0)]] solve_unknowns = Inr [[(Sym_C1, [])]]"
  by (simp add: solve_unknowns_def poly_defs)

lemma subs_origin:
  "psubs_dict [(0, 1, 0), czero, (1, 0, 0)] [(Sym_C1, [])] = [czero, czero, (1, 0, 0)]"
  "psubs_dict [(0, 1, 0), czero, (1 / 2, 0, 0)] [(Sym_C1, [])] = [czero, czero, (1 / 2, 0, 0)]"
  "psubs_dict [czero, (2, 0, 0)] [(Sym_C1, [])] = [czero, (2, 0, 0)]"
  "psubs_dict [czero, (1, 0, 0)] [(Sym_C1, [])] = [czero, (1, 0, 0)]"
  by (simp_all add: Let_def poly_defs)

section \<open>The reconstructor\<close>

text \<open>
  C1. For every pair of texts that the parser accepts, the reconstructor returns a
  pair exactly when the integrations it needs succeed, and the pair is the one the
  formulas give: without a second derivative, \<open>fprime_expr\<close> is the parsed \<open>fprime\<close> and
  \<open>f_expr\<close> is its integral in \<open>x\<close> plus \<open>C1\<close>; with one, \<open>fprime_expr\<close> is the integral
  of \<open>fdoubleprime\<close> plus \<open>C1\<close> and \<open>f_expr\<close> is the integral of that plus \<open>C2\<close>. The
  second derivative is absent when its text is blank or the parser returned
  \<^verbatim>\<open>None\<close> for it, and present otherwise.
\<close>

theorem reconstruct_formulas:
  assumes "parse_expressions L d s = Inr (fprime, fdp)"
  shows "(fdp = None \<longleftrightarrow> strip s = [] \<or> sp_sympify L s = Inr None) \<and>
    (reconstruct L fprime fdp = Inr (f, fp) \<longleftrightarrow>
      (case fdp of
         None \<Rightarrow>
           fprime = Some fp \<and>
           (\<exists>F. sp_integrate L fp Sym_x = Inr F \<and> f = sp_add L F (sp_symbol L Sym_C1))
       | Some g \<Rightarrow>
           (\<exists>G. sp_integrate L g Sym_x = Inr G \<and> fp = sp_add L G (sp_symbol L Sym_C1) \<and>
             (\<exists>F. sp_integrate L fp Sym_x = Inr F \<and> f = sp_add L F (sp_symbol L Sym_C2)))))"
proof
  show "fdp = None \<longleftrightarrow> strip s = [] \<or> sp_sympify L s = Inr None"
    using assms by (auto simp: parse_expressions_def split: sum.splits if_splits)
  show "reconstruct L fprime fdp = Inr (f, fp) \<longleftrightarrow>
      (case fdp of
         None \<Rightarrow>
           fprime = Some fp \<and>
           (\<exists>F. sp_integrate L fp Sym_x = Inr F \<and> f = sp_add L F (sp_symbol L Sym_C1))
       | Some g \<Rightarrow>
           (\<exists>G. sp_integrate L g Sym_x = Inr G \<and> fp = sp_add L G (sp_symbol L Sym_C1) \<and>
             (\<exists>F. sp_integrate L fp Sym_x = Inr F \<and> f = sp_add L F (sp_symbol L Sym_C2))))"
    by (cases fdp) (auto simp: reconstruct_def Let_def split: sum.splits option.splits)
qed

theorem reconstruct_formulas_witness:
  "parse_expressions poly_library ''2*x'' [] = Inr (Some [czero, (2, 0, 0)], None) \<and>
   reconstruct poly_library (Some [czero, (2, 0, 0)]) None
     = Inr ([(0, 1, 0), czero, (1, 0, 0)], [czero, (2, 0, 0)])"
  using reconstruct_formulas [OF parse_2x, of "[(0, 1, 0), czero, (1, 0, 0)]" "[czero, (2, 0, 0)]"]
  by (simp add: parse_2x integrate_2x add_C1_x2)

section \<open>The condition solver\<close>

lemma parse_C2x:
  "parse_expressions poly_library ''C2*x'' [] = Inr (Some [czero, (0, 0, 1)], None)"
  by (simp add: parse_expressions_def sympify_C2x strip_empty)

lemma run_C2x:
  "symbolic_part poly_library
     \<lparr>derivative_str = ''C2*x'', second_derivative_str = [], ic_fx = ''0,0'', ic_fpx = ''1,2'',
      critical_points_str = [], xmin = - 5, xmax = 5\<rparr>
   = Inr ([czero, czero, (1, 0, 0)], [czero, (2, 0, 0)], None)"
  by (simp add: symbolic_part_def parse_C2x reconstruct_C2x equations_C2x apply_constants_def
      solve_C2x_both subs_C2x_both)

text \<open>
  C2, as the specification states it: the solver is asked for exactly the constants
  that the reconstructor introduced. It is not: in a run without a second derivative
  only \<open>C1\<close> was introduced, and line 108 still asks for \<open>C1\<close> and \<open>C2\<close>. The difference
  shows when the text of the first derivative mentions \<open>C2\<close>. For \<open>f'(x) = C2 * x\<close> with
  \<open>f(0) = 0\<close> and \<open>f'(1) = 2\<close> the equations are \<open>C1\<close> and \<open>C2 - 2\<close>: the run solves them
  for both symbols and ends with \<open>f(x) = x\<^sup>2\<close>, where solving for \<open>C1\<close> alone would
  have left \<open>C2\<close> in place.
\<close>

theorem solve_unknowns_counterexample:
  "parse_expressions poly_library ''C2*x'' [] = Inr (Some [czero, (0, 0, 1)], None) \<and>
   reconstruct poly_library (Some [czero, (0, 0, 1)]) None
     = Inr ([(0, 1, 0), czero, (0, 0, 1 / 2)], [czero, (0, 0, 1)]) \<and>
   build_equations poly_library [(0, 1, 0), czero, (0, 0, 1 / 2)] [czero, (0, 0, 1)] ''0,0'' ''1,2''
     = Inr [[(0, 1, 0)], [(- 2, 0, 1)]] \<and>
   solve_unknowns \<noteq> introduced_constants (None :: poly option) \<and>
   sp_solve poly_library [[(0, 1, 0)], [(- 2, 0, 1)]] solve_unknowns
     = Inr [[(Sym_C1, []), (Sym_C2, [(2, 0, 0)])]] \<and>
   sp_solve poly_library [[(0, 1, 0)], [(- 2, 0, 1)]] (introduced_constants (None :: poly option))
     = Inr [[(Sym_C1, [])]] \<and>
   symbolic_part poly_library
     \<lparr>derivative_str = ''C2*x'', second_derivative_str = [], ic_fx = ''0,0'', ic_fpx = ''1,2'',
      critical_points_str = [], xmin = - 5, xmax = 5\<rparr>
   = Inr ([czero, czero, (1, 0, 0)], [czero, (2, 0, 0)], None) \<and>
   sp_subs_dict poly_library [(0, 1, 0), czero, (0, 0, 1 / 2)] [(Sym_C1, [])]
     \<noteq> [czero, czero, (1, 0, 0)]"
proof -
  have "solve_unknowns \<noteq> introduced_constants (None :: poly option)"
    by (simp add: solve_unknowns_def introduced_constants_def)
  moreover have "sp_solve poly_library [[(0, 1, 0)], [(- 2, 0, 1)]]
      (introduced_constants (None :: poly option)) = Inr [[(Sym_C1, [])]]"
    by (simp add: introduced_constants_def solve_C2x_one)
  moreover have "sp_subs_dict poly_library [(0, 1, 0), czero, (0, 0, 1 / 2)] [(Sym_C1, [])]
      \<noteq> [czero, czero, (1, 0, 0)]"
    by (simp add: subs_C2x_one)
  ultimately show ?thesis
    using parse_C2x reconstruct_C2x equations_C2x solve_C2x_both run_C2x by simp
qed

text \<open>
  C2, amended. In every run that reaches the solver, the equations are solved for
  both \<open>C1\<close> and \<open>C2\<close>, whether or not a second derivative was given. If the solver
  returns no solution the pair is left as reconstructed and the run goes on without
  an error; if it returns at least one, the first is substituted into both.
\<close>

theorem solver_policy:
  assumes "parse_expressions L (derivative_str inp) (second_derivative_str inp) = Inr (fprime, fdp)"
    and "reconstruct L fprime fdp = Inr (f, fp)"
    and "build_equations L f fp (ic_fx inp) (ic_fpx inp) = Inr equations"
  shows "(sp_solve L equations [Sym_C1, Sym_C2] = Inr [] \<longrightarrow>
            symbolic_part L inp = Inr (f, fp, fdp)) \<and>
         (sp_solve L equations [Sym_C1, Sym_C2] = Inr (s # rest) \<longrightarrow>
            symbolic_part L inp = Inr (sp_subs_dict L f s, sp_subs_dict L fp s, fdp))"
  using assms by (simp add: symbolic_part_def apply_constants_def solve_unknowns_def)

text \<open>The witness is a run whose two conditions contradict each other.\<close>

theorem solver_policy_witness:
  "symbolic_part poly_library
     \<lparr>derivative_str = ''2*x'', second_derivative_str = [], ic_fx = ''0,0'', ic_fpx = ''1,5'',
      critical_points_str = [], xmin = - 5, xmax = 5\<rparr>
   = Inr ([(0, 1, 0), czero, (1, 0, 0)], [czero, (2, 0, 0)], None)"
  using solver_policy [of poly_library
      "\<lparr>derivative_str = ''2*x'', second_derivative_str = [], ic_fx = ''0,0'', ic_fpx = ''1,5'',
        critical_points_str = [], xmin = - 5, xmax = 5\<rparr>"
      "Some [czero, (2, 0, 0)]" None "[(0, 1, 0), czero, (1, 0, 0)]" "[czero, (2, 0, 0)]"
      "[[(0, 1, 0)], [(- 3, 0, 0)]]"]
    solve_2x_clash
  by (simp add: parse_2x reconstruct_2x equations_2x_clash solve_unknowns_def)

text \<open>
  C4. The substitution is all or nothing: in every run that gets past the solver,
  either the solver returned no solution and both expressions are the reconstructed
  ones, or both are the reconstructed ones with the first solution substituted.
\<close>

theorem substitution_atomic:
  assumes "symbolic_part L inp = Inr (f', fp', fdp)"
  shows "\<exists>fprime f fp equations.
           parse_expressions L (derivative_str inp) (second_derivative_str inp) = Inr (fprime, fdp) \<and>
           reconstruct L fprime fdp = Inr (f, fp) \<and>
           build_equations L f fp (ic_fx inp) (ic_fpx inp) = Inr equations \<and>
           ((sp_solve L equations solve_unknowns = Inr [] \<and> f' = f \<and> fp' = fp) \<or>
            (\<exists>s rest. sp_solve L equations solve_unknowns = Inr (s # rest) \<and>
               f' = sp_subs_dict L f s \<and> fp' = sp_subs_dict L fp s))"
  using assms
  by (auto simp: symbolic_part_def apply_constants_def split: sum.splits prod.splits list.splits)

lemma run_zero_one:
  "symbolic_part poly_library
     \<lparr>derivative_str = ''2*x'', second_derivative_str = ''0'', ic_fx = ''0,1'', ic_fpx = [],
      critical_points_str = [], xmin = - 5, xmax = 5\<rparr>
   = Inr ([(1, 0, 0), (0, 1, 0)], [(0, 1, 0)], Some [])"
  by (simp add: symbolic_part_def parse_with_zero [OF sympify_2x] reconstruct_zero
      equations_zero_one apply_constants_def solve_zero_one subs_zero_one)

theorem substitution_atomic_witness:
  "symbolic_part poly_library
     \<lparr>derivative_str = ''2*x'', second_derivative_str = ''0'', ic_fx = ''0,1'', ic_fpx = [],
      critical_points_str = [], xmin = - 5, xmax = 5\<rparr>
   = Inr ([(1, 0, 0), (0, 1, 0)], [(0, 1, 0)], Some []) \<and>
   (\<exists>fprime f fp equations.
      parse_expressions poly_library ''2*x'' ''0'' = Inr (fprime, Some []) \<and>
      reconstruct poly_library fprime (Some []) = Inr (f, fp) \<and>
      build_equations poly_library f fp ''0,1'' [] = Inr equations \<and>
      ((sp_solve poly_library equations solve_unknowns = Inr [] \<and>
          [(1, 0, 0), (0, 1, 0)] = f \<and> [(0, 1, 0)] = fp) \<or>
       (\<exists>s rest. sp_solve poly_library equations solve_unknowns = Inr (s # rest) \<and>
          [(1, 0, 0), (0, 1, 0)] = sp_subs_dict poly_library f s \<and>
          [(0, 1, 0)] = sp_subs_dict poly_library fp s)))"
  using substitution_atomic [OF run_zero_one] run_zero_one
  by simp

text \<open>
  C6. With \<open>f''(x) = 0\<close>, \<open>f(0) = 1\<close> and \<open>f'(0) = 2\<close>, and any first-derivative text
  that parses, both constants are resolved: \<open>f_expr\<close> is \<open>1 + 2x\<close> and \<open>fprime_expr\<close>
  is \<open>2\<close>.
\<close>

theorem linear_example:
  assumes "sp_sympify poly_library d = Inr p"
  shows "symbolic_part poly_library
           (inp\<lparr>derivative_str := d, second_derivative_str := ''0'',
                 ic_fx := ''0,1'', ic_fpx := ''0,2''\<rparr>)
         = Inr ([(1, 0, 0), (2, 0, 0)], [(2, 0, 0)], Some [])"
proof -
  from assms have "psympify d = Inr p"
    by simp
  then show ?thesis
    by (simp add: symbolic_part_def parse_with_zero reconstruct_zero equations_zero_both
        apply_constants_def solve_zero_both subs_zero_both)
qed

theorem linear_example_witness:
  "sp_sympify poly_library ''2*x'' = Inr (Some [czero, (2, 0, 0)]) \<and>
   symbolic_part poly_library
     \<lparr>derivative_str = ''2*x'', second_derivative_str = ''0'', ic_fx = ''0,1'', ic_fpx = ''0,2'',
      critical_points_str = [], xmin = - 5, xmax = 5\<rparr>
   = Inr ([(1, 0, 0), (2, 0, 0)], [(2, 0, 0)], Some [])"
proof -
  have s: "sp_sympify poly_library ''2*x'' = Inr (Some [czero, (2, 0, 0)])"
    by (simp add: sympify_2x)
  show ?thesis
    using linear_example [OF s, of
      "\<lparr>derivative_str = [], second_derivative_str = [], ic_fx = [], ic_fpx = [],
        critical_points_str = [], xmin = - 5, xmax = 5\<rparr>"] s
    by simp
qed

section \<open>Differentiating the reconstruction\<close>















lemma factored_library_sel [simp]:
  "sp_sympify factored_library = fsympify"
  "sp_symbol factored_library s = Expanded (psymbol s)"
  "sp_integrate factored_library e s = map_sum id Expanded (pintegrate (expand e) s)"
  "sp_add factored_library a b = Expanded (padd (expand a) (expand b))"
  "sp_diff factored_library e s = Expanded (pdiff (expand e) s)"
  by (simp_all add: factored_library_def)

lemma expand_Expanded [simp]: "expand (Expanded p) = p"
  by (simp add: expand_def)










section \<open>The evaluator\<close>

lemma lambdify_x:
  "plambdify Sym_x p =
     Inr (\<lambda>xs. Inr (if length p \<le> 1 then Scalar (cval p)
                    else if list_all numeric p then Float_array (map (\<lambda>t. fst (peval p t)) xs)
                    else Object_array))"
  by (simp add: plambdify_def)



















text \<open>The points of \<open>linspace\<close>: \<open>start + i * step\<close>, the last one included.\<close>

lemma length_linspace: "length (linspace a b n) = n"
  by (simp add: linspace_def)

lemma linspace_nth:
  assumes "2 \<le> n" and "i < n"
  shows "linspace a b n ! i = a + real i * ((b - a) / real (n - 1))"
proof (cases "i < n - 1")
  case True
  with assms show ?thesis
    by (simp add: linspace_def nth_append)
next
  case False
  with assms have i: "i = n - 1"
    by simp
  from assms have "real (n - 1) \<noteq> 0"
    by simp
  then have "a + real (n - 1) * ((b - a) / real (n - 1)) = b"
    by simp
  moreover from assms have "linspace a b n ! (n - 1) = b"
    by (simp add: linspace_def nth_append)
  ultimately show ?thesis
    by (simp add: i)
qed

text \<open>
  C7. For bounds with \<open>xmin < xmax\<close> the sample grid has exactly 1000 points, starts
  at \<open>xmin\<close>, ends at \<open>xmax\<close>, is strictly increasing, and neighbouring points are
  \<open>(xmax - xmin) / 999\<close> apart.
\<close>

theorem sample_grid_shape:
  assumes "lo < hi"
  shows "length (sample_grid lo hi) = 1000 \<and>
         hd (sample_grid lo hi) = lo \<and>
         last (sample_grid lo hi) = hi \<and>
         sorted_wrt (<) (sample_grid lo hi) \<and>
         (\<forall>i < 999. sample_grid lo hi ! Suc i - sample_grid lo hi ! i = (hi - lo) / 999)"
proof -
  let ?g = "sample_grid lo hi"
  let ?step = "(hi - lo) / 999"
  have len: "length ?g = 1000"
    by (simp add: sample_grid_def length_linspace)
  have nth: "?g ! i = lo + real i * ?step" if "i < 1000" for i
    using that linspace_nth [of 1000 i lo hi] by (simp add: sample_grid_def)
  have step: "0 < ?step"
    using assms by simp
  from len have ne: "?g \<noteq> []"
    by auto
  have first: "hd ?g = lo"
    using nth [of 0] by (simp add: hd_conv_nth [OF ne])
  have "last ?g = ?g ! 999"
    using len by (simp add: last_conv_nth [OF ne])
  also have "\<dots> = hi"
    using nth [of 999] by (simp add: field_simps)
  finally have final: "last ?g = hi" .
  have incr: "sorted_wrt (<) ?g"
  proof -
    have "?g ! i < ?g ! j" if "i < j" "j < 1000" for i j
    proof -
      from that have "real i * ?step < real j * ?step"
        using step by simp
      with that show ?thesis
        by (simp add: nth)
    qed
    then show ?thesis
      by (simp add: sorted_wrt_iff_nth_less len)
  qed
  have even: "\<forall>i < 999. ?g ! Suc i - ?g ! i = ?step"
  proof (intro allI impI)
    fix i :: nat
    assume i: "i < 999"
    define d where "d = ?step"
    from i have "?g ! Suc i = lo + real (Suc i) * d" and "?g ! i = lo + real i * d"
      by (simp_all add: nth d_def)
    then have "?g ! Suc i - ?g ! i = d"
      by (simp add: algebra_simps)
    then show "?g ! Suc i - ?g ! i = ?step"
      by (simp add: d_def)
  qed
  from len first final incr even show ?thesis
    by blast
qed

theorem sample_grid_shape_witness:
  "(- 5 :: real) < 5 \<and>
   length (sample_grid (- 5) 5) = 1000 \<and>
   hd (sample_grid (- 5) 5) = - 5 \<and>
   last (sample_grid (- 5) 5) = 5"
  using sample_grid_shape [of "- 5" 5]
  by simp

lemma float_each_fails:
  "(\<exists>e. float_each L vs = Inl e) \<longleftrightarrow> (\<exists>v \<in> set vs. isl (py_float L v))"
  by (induction vs) (auto split: sum.splits simp: isl_def)

lemma symbolic_part_critical:
  "symbolic_part L (inp\<lparr>critical_points_str := s\<rparr>) = symbolic_part L inp"
  by (simp add: symbolic_part_def split: sum.splits prod.splits)

text \<open>The default run: \<open>f' = 2x\<close>, no second derivative, \<open>f(0) = 0\<close>.\<close>

lemma run_default:
  "symbolic_part poly_library
     \<lparr>derivative_str = ''2*x'', second_derivative_str = [], ic_fx = ''0,0'', ic_fpx = [],
      critical_points_str = cp, xmin = - 5, xmax = 5\<rparr>
   = Inr ([czero, czero, (1, 0, 0)], [czero, (2, 0, 0)], None)"
  by (simp add: symbolic_part_def parse_2x reconstruct_2x equations_origin apply_constants_def
      solve_origin subs_origin)

lemma pipeline_default:
  "pipeline poly_library
     \<lparr>derivative_str = ''2*x'', second_derivative_str = [], ic_fx = ''0,0'', ic_fpx = [],
      critical_points_str = [], xmin = - 5, xmax = 5\<rparr>
   = ([], Inr \<lparr>f_expr = [czero, czero, (1, 0, 0)], fprime_expr = [czero, (2, 0, 0)],
               fdoubleprime = None, x_vals = sample_grid (- 5) 5,
               f_vals = map (\<lambda>t. fst (peval [czero, czero, (1, 0, 0)] t)) (sample_grid (- 5) 5),
               fprime_vals = map (\<lambda>t. fst (peval [czero, (2, 0, 0)] t)) (sample_grid (- 5) 5),
               fdoubleprime_vals = None, critical_points = [],
               inflection_points = Floats []\<rparr>)"
  by (simp add: pipeline_def evaluator_def run_default numerical_lambdas_def lambdify_x
      parse_critical_points_def strip_empty find_inflection_points_def evaluate_def
      plot_curve_def pplot_def numeric_def czero_def Let_def)

text \<open>
  C8. When the critical-point text is not blank and \<^verbatim>\<open>float\<close> rejects one of its
  comma-separated parts, the run is the run with a blank text plus the warning: it
  ends in the same fatal condition or, when that run completes, it completes with
  the warning shown, the same grid and arrays for \<open>f\<close> and \<open>f'\<close>, and an empty list of
  critical points.
\<close>

theorem critical_points_warning:
  assumes "strip s \<noteq> []"
    and "\<exists>v \<in> set (split CHR '','' s). isl (py_float L v)"
  shows "parse_critical_points L s = ([], [''Could not parse critical points.'']) \<and>
         snd (pipeline L (inp\<lparr>critical_points_str := s\<rparr>))
           = snd (pipeline L (inp\<lparr>critical_points_str := []\<rparr>)) \<and>
         (\<forall>w out. pipeline L (inp\<lparr>critical_points_str := []\<rparr>) = (w, Inr out) \<longrightarrow>
            pipeline L (inp\<lparr>critical_points_str := s\<rparr>)
              = ([''Could not parse critical points.''], Inr out) \<and>
            critical_points out = [] \<and> w = [])"
proof -
  from assms(2) obtain e where "float_each L (split CHR '','' s) = Inl e"
    using float_each_fails by blast
  with assms(1) have cp: "parse_critical_points L s = ([], [''Could not parse critical points.''])"
    by (simp add: parse_critical_points_def)
  have blank: "parse_critical_points L [] = ([], [])"
    by (simp add: parse_critical_points_def strip_def)
  have same: "snd (pipeline L (inp\<lparr>critical_points_str := s\<rparr>))
           = snd (pipeline L (inp\<lparr>critical_points_str := []\<rparr>))"
    by (simp add: pipeline_def evaluator_def Let_def symbolic_part_critical cp blank
        split: sum.splits prod.splits)
  have completed: "pipeline L (inp\<lparr>critical_points_str := s\<rparr>)
         = ([''Could not parse critical points.''], Inr out) \<and> critical_points out = [] \<and> w = []"
    if "pipeline L (inp\<lparr>critical_points_str := []\<rparr>) = (w, Inr out)" for w out
    using that
    by (auto simp: pipeline_def evaluator_def Let_def symbolic_part_critical cp blank
        split: sum.splits prod.splits)
  from cp same completed show ?thesis
    by blast
qed

text \<open>The witness is the default run with the critical-point text \<^verbatim>\<open>abc\<close>.\<close>

theorem critical_points_warning_witness:
  "strip ''abc'' \<noteq> [] \<and> isl (py_float poly_library ''abc'') \<and>
   pipeline poly_library
     \<lparr>derivative_str = ''2*x'', second_derivative_str = [], ic_fx = ''0,0'', ic_fpx = [],
      critical_points_str = ''abc'', xmin = - 5, xmax = 5\<rparr>
   = ([''Could not parse critical points.''],
      Inr \<lparr>f_expr = [czero, czero, (1, 0, 0)], fprime_expr = [czero, (2, 0, 0)],
           fdoubleprime = None, x_vals = sample_grid (- 5) 5,
           f_vals = map (\<lambda>t. fst (peval [czero, czero, (1, 0, 0)] t)) (sample_grid (- 5) 5),
           fprime_vals = map (\<lambda>t. fst (peval [czero, (2, 0, 0)] t)) (sample_grid (- 5) 5),
           fdoubleprime_vals = None, critical_points = [],
           inflection_points = Floats []\<rparr>)"
proof -
  have f: "isl (py_float poly_library ''abc'')"
    by (simp add: float_abc)
  then have b: "\<exists>v \<in> set (split CHR '','' ''abc''). isl (py_float poly_library v)"
    by simp
  from critical_points_warning [OF strip_pair(3) b, of
      "\<lparr>derivative_str = ''2*x'', second_derivative_str = [], ic_fx = ''0,0'', ic_fpx = [],
        critical_points_str = [], xmin = - 5, xmax = 5\<rparr>"]
    pipeline_default f strip_pair(3)
  show ?thesis
    by simp
qed

section \<open>Inflection points\<close>

text \<open>
  C9. The specification says that a failure anywhere in the computation of the
  inflection points leaves the set empty. A failure of \<^verbatim>\<open>sp.solve\<close> does. A failure
  in the conversion on line 138 does not: line 137 has already stored the solver's
  result in the variable, and that symbolic list is what is left.
\<close>

theorem inflection_points_after_failure:
  "(sp_solve_expr L g Sym_x = Inl e \<longrightarrow> find_inflection_points L (Some g) = Floats []) \<and>
   (sp_solve_expr L g Sym_x = Inr sols \<longrightarrow> real_floats L sols = Inl e \<longrightarrow>
      find_inflection_points L (Some g) = Symbolic sols)"
  by (simp add: find_inflection_points_def)

text \<open>
  The witness: \<open>f''(x) = x - C1\<close> with \<open>C1\<close> real. The solver returns \<open>[C1]\<close>, the filter
  keeps it, \<^verbatim>\<open>float\<close> raises, and \<open>[C1]\<close> stays.
\<close>

theorem inflection_points_after_failure_witness:
  "sp_solve_expr real_symbols_library [(0, - 1, 0), (1, 0, 0)] Sym_x = Inr [[(0, 1, 0)]] \<and>
   real_floats real_symbols_library [[(0, 1, 0)]]
     = Inl ''TypeError: Cannot convert expression to float'' \<and>
   find_inflection_points real_symbols_library (Some [(0, - 1, 0), (1, 0, 0)])
     = Symbolic [[(0, 1, 0)]]"
proof -
  have s: "sp_solve_expr real_symbols_library [(0, - 1, 0), (1, 0, 0)] Sym_x = Inr [[(0, 1, 0)]]"
    by (simp add: real_symbols_library_def poly_defs)
  have r: "real_floats real_symbols_library [[(0, 1, 0)]]
     = Inl ''TypeError: Cannot convert expression to float''"
    by (simp add: real_symbols_library_def poly_defs)
  from inflection_points_after_failure
    [of real_symbols_library "[(0, - 1, 0), (1, 0, 0)]"
      "''TypeError: Cannot convert expression to float''" "[[(0, 1, 0)]]"] s r
  show ?thesis
    by blast
qed

section \<open>Independence from the first-derivative text\<close>

lemma run_None_2x:
  "symbolic_part poly_library
     \<lparr>derivative_str = ''2*x'', second_derivative_str = ''None'', ic_fx = ''0,0'', ic_fpx = [],
      critical_points_str = [], xmin = - 5, xmax = 5\<rparr>
   = Inr ([czero, czero, (1, 0, 0)], [czero, (2, 0, 0)], None)"
  by (simp add: symbolic_part_def parse_expressions_def sympify_2x sympify_None strip_None
      reconstruct_2x equations_origin apply_constants_def solve_origin subs_origin)

lemma run_None_x:
  "symbolic_part poly_library
     \<lparr>derivative_str = ''x'', second_derivative_str = ''None'', ic_fx = ''0,0'', ic_fpx = [],
      critical_points_str = [], xmin = - 5, xmax = 5\<rparr>
   = Inr ([czero, czero, (1 / 2, 0, 0)], [czero, (1, 0, 0)], None)"
  by (simp add: symbolic_part_def parse_expressions_def sympify_x sympify_None strip_None
      reconstruct_x equations_origin apply_constants_def solve_origin subs_origin)

text \<open>
  C10, as the specification states it: with a non-blank second-derivative text, two
  first-derivative texts that parse give the same run. Not when that text is
  \<^verbatim>\<open>None\<close>: the parser returns \<^verbatim>\<open>None\<close> for it, line 81 takes the branch that
  integrates the first derivative, and \<open>2x\<close> and \<open>x\<close> give \<open>x\<^sup>2\<close> and \<open>x\<^sup>2 / 2\<close>.
\<close>

theorem fprime_text_counterexample:
  "strip ''None'' \<noteq> [] \<and>
   sp_sympify poly_library ''None'' = Inr None \<and>
   sp_sympify poly_library ''2*x'' = Inr (Some [czero, (2, 0, 0)]) \<and>
   sp_sympify poly_library ''x'' = Inr (Some [czero, (1, 0, 0)]) \<and>
   symbolic_part poly_library
     \<lparr>derivative_str = ''2*x'', second_derivative_str = ''None'', ic_fx = ''0,0'', ic_fpx = [],
      critical_points_str = [], xmin = - 5, xmax = 5\<rparr>
   = Inr ([czero, czero, (1, 0, 0)], [czero, (2, 0, 0)], None) \<and>
   symbolic_part poly_library
     \<lparr>derivative_str = ''x'', second_derivative_str = ''None'', ic_fx = ''0,0'', ic_fpx = [],
      critical_points_str = [], xmin = - 5, xmax = 5\<rparr>
   = Inr ([czero, czero, (1 / 2, 0, 0)], [czero, (1, 0, 0)], None) \<and>
   pipeline poly_library
     \<lparr>derivative_str = ''2*x'', second_derivative_str = ''None'', ic_fx = ''0,0'', ic_fpx = [],
      critical_points_str = [], xmin = - 5, xmax = 5\<rparr>
   \<noteq> pipeline poly_library
     \<lparr>derivative_str = ''x'', second_derivative_str = ''None'', ic_fx = ''0,0'', ic_fpx = [],
      critical_points_str = [], xmin = - 5, xmax = 5\<rparr>"
proof -
  have a: "map_sum id f_expr (snd (pipeline poly_library
     \<lparr>derivative_str = ''2*x'', second_derivative_str = ''None'', ic_fx = ''0,0'', ic_fpx = [],
      critical_points_str = [], xmin = - 5, xmax = 5\<rparr>)) = Inr [czero, czero, (1, 0, 0)]"
    by (simp add: pipeline_def evaluator_def run_None_2x numerical_lambdas_def lambdify_x
        parse_critical_points_def strip_empty find_inflection_points_def evaluate_def
        plot_curve_def pplot_def numeric_def czero_def Let_def)
  have b: "map_sum id f_expr (snd (pipeline poly_library
     \<lparr>derivative_str = ''x'', second_derivative_str = ''None'', ic_fx = ''0,0'', ic_fpx = [],
      critical_points_str = [], xmin = - 5, xmax = 5\<rparr>)) = Inr [czero, czero, (1 / 2, 0, 0)]"
    by (simp add: pipeline_def evaluator_def run_None_x numerical_lambdas_def lambdify_x
        parse_critical_points_def strip_empty find_inflection_points_def evaluate_def
        plot_curve_def pplot_def numeric_def czero_def Let_def)
  have "pipeline poly_library
     \<lparr>derivative_str = ''2*x'', second_derivative_str = ''None'', ic_fx = ''0,0'', ic_fpx = [],
      critical_points_str = [], xmin = - 5, xmax = 5\<rparr>
   \<noteq> pipeline poly_library
     \<lparr>derivative_str = ''x'', second_derivative_str = ''None'', ic_fx = ''0,0'', ic_fpx = [],
      critical_points_str = [], xmin = - 5, xmax = 5\<rparr>"
  proof
    assume "pipeline poly_library
       \<lparr>derivative_str = ''2*x'', second_derivative_str = ''None'', ic_fx = ''0,0'', ic_fpx = [],
        critical_points_str = [], xmin = - 5, xmax = 5\<rparr>
     = pipeline poly_library
       \<lparr>derivative_str = ''x'', second_derivative_str = ''None'', ic_fx = ''0,0'', ic_fpx = [],
        critical_points_str = [], xmin = - 5, xmax = 5\<rparr>"
    with a b have "Inr [czero, czero, (1, 0, 0)] = (Inr [czero, czero, (1 / 2, 0, 0)] :: fatal + poly)"
      by simp
    then show False
      by simp
  qed
  then show ?thesis
    using strip_None sympify_None sympify_2x sympify_x run_None_2x run_None_x by simp
qed

text \<open>
  C10, amended. When the text of the second derivative is not blank and the parser
  does not return \<^verbatim>\<open>None\<close> for it, two runs that differ only in the text of the first
  derivative, both texts being accepted by the parser, end the same way: the same
  warnings, and the same fatal condition or the same outputs.
\<close>

theorem fprime_text_irrelevant:
  assumes "strip (second_derivative_str inp) \<noteq> []"
    and "sp_sympify L (second_derivative_str inp) \<noteq> Inr None"
    and "sp_sympify L d1 = Inr v1"
    and "sp_sympify L d2 = Inr v2"
  shows "pipeline L (inp\<lparr>derivative_str := d1\<rparr>) = pipeline L (inp\<lparr>derivative_str := d2\<rparr>)"
proof -
  have r: "reconstruct L v1 (Some g) = reconstruct L v2 (Some g)" for g
    by (simp add: reconstruct_def)
  have "symbolic_part L (inp\<lparr>derivative_str := d1\<rparr>) = symbolic_part L (inp\<lparr>derivative_str := d2\<rparr>)"
    using assms
    by (auto simp: symbolic_part_def parse_expressions_def r split: sum.splits option.splits)
  then show ?thesis
    by (simp add: pipeline_def split: sum.splits prod.splits)
qed

theorem fprime_text_irrelevant_witness:
  "strip ''0'' \<noteq> [] \<and>
   sp_sympify poly_library ''0'' \<noteq> Inr None \<and>
   sp_sympify poly_library ''2*x'' = Inr (Some [czero, (2, 0, 0)]) \<and>
   sp_sympify poly_library ''x'' = Inr (Some [czero, (1, 0, 0)]) \<and>
   pipeline poly_library
     \<lparr>derivative_str = ''2*x'', second_derivative_str = ''0'', ic_fx = ''0,1'', ic_fpx = ''0,2'',
      critical_points_str = [], xmin = - 5, xmax = 5\<rparr>
   = pipeline poly_library
     \<lparr>derivative_str = ''x'', second_derivative_str = ''0'', ic_fx = ''0,1'', ic_fpx = ''0,2'',
      critical_points_str = [], xmin = - 5, xmax = 5\<rparr>"
proof -
  have a: "strip (second_derivative_str
     \<lparr>derivative_str = [], second_derivative_str = ''0'', ic_fx = ''0,1'', ic_fpx = ''0,2'',
      critical_points_str = [], xmin = - 5, xmax = 5\<rparr>) \<noteq> []"
    by (simp add: strip_0)
  have n: "sp_sympify poly_library (second_derivative_str
     \<lparr>derivative_str = [], second_derivative_str = ''0'', ic_fx = ''0,1'', ic_fpx = ''0,2'',
      critical_points_str = [], xmin = - 5, xmax = 5\<rparr>) \<noteq> Inr None"
    by (simp add: sympify_0)
  have b: "sp_sympify poly_library ''2*x'' = Inr (Some [czero, (2, 0, 0)])"
    by (simp add: sympify_2x)
  have c: "sp_sympify poly_library ''x'' = Inr (Some [czero, (1, 0, 0)])"
    by (simp add: sympify_x)
  from fprime_text_irrelevant [OF a n b c] b c show ?thesis
    by (simp add: strip_0 sympify_0)
qed

end
